theory Spec2Isabelle
  imports Main
begin

section \<open>Values and errors\<close>

text \<open>
  The value \<open>yaml.load\<close> returns for the backend declaration file (lines 18 and 19 of
  \<open>gen_backend_stubs.py\<close>; opening and loading the file is the library's work). A mapping is
  kept as an association list in document order; only string keys are kept, since
  \<open>parse_backend_yaml\<close> looks up four string keys and nothing else. The other scalars of
  YAML (floats, dates) are treated by the function as \<open>YInt\<close> is: they are never looked
  into and cannot be iterated.
\<close>

datatype yaml =
    YNull
  | YBool bool
  | YInt int
  | YStr string
  | YList "yaml list"
  | YDict "(string \<times> yaml) list"

text \<open>
  The exceptions of the source as values. \<open>AssertionError\<close> carries its message (empty for
  a bare \<open>assert\<close>), \<open>KeyError\<close> the missing key, \<open>TypeError\<close> the name of the type that
  cannot be iterated. \<open>ParseError\<close> is what the specification lets \<open>OperatorName.parse\<close>
  raise.
\<close>

datatype error =
    AssertionError string
  | KeyError string
  | TypeError string
  | ParseError string

text \<open>\<open>d[k]\<close> on a Python dict: the value, or \<open>KeyError\<close>.\<close>

definition py_getitem :: "(string \<times> yaml) list \<Rightarrow> string \<Rightarrow> error + yaml" where
  "py_getitem d k = (case map_of d k of None \<Rightarrow> Inl (KeyError k) | Some v \<Rightarrow> Inr v)"

text \<open>
  What \<open>for op in v\<close> iterates over: the elements of a list, the one-character strings of
  a string, the keys of a dict; any other value raises \<open>TypeError\<close>.
\<close>

fun py_iter :: "yaml \<Rightarrow> error + yaml list" where
  "py_iter (YList xs) = Inr xs"
| "py_iter (YStr s) = Inr (map (\<lambda>c. YStr [c]) s)"
| "py_iter (YDict d) = Inr (map (\<lambda>kv. YStr (fst kv)) d)"
| "py_iter YNull = Inl (TypeError ''NoneType'')"
| "py_iter (YBool b) = Inl (TypeError ''bool'')"
| "py_iter (YInt i) = Inl (TypeError ''int'')"

section \<open>Python dictionaries\<close>

text \<open>
  A dict keeps its keys in insertion order; assigning to a key that is present replaces the
  value and leaves the key where it is.
\<close>

fun dict_set :: "('k \<times> 'v) list \<Rightarrow> 'k \<Rightarrow> 'v \<Rightarrow> ('k \<times> 'v) list" where
  "dict_set [] k v = [(k, v)]"
| "dict_set ((k', v') # d) k v =
     (if k' = k then (k', v) # d else (k', v') # dict_set d k v)"

definition dict_get :: "('k \<times> 'v) list \<Rightarrow> 'k \<Rightarrow> 'v option" where
  "dict_get d k = map_of d k"

definition dict_keys :: "('k \<times> 'v) list \<Rightarrow> 'k list" where
  "dict_keys d = map fst d"

definition dict_contains :: "('k \<times> 'v) list \<Rightarrow> 'k \<Rightarrow> bool" where
  "dict_contains d k = (k \<in> set (dict_keys d))"

definition concatMap :: "('a \<Rightarrow> 'b list) \<Rightarrow> 'a list \<Rightarrow> 'b list" where
  "concatMap f xs = concat (map f xs)"

section \<open>The data model\<close>

text \<open>
  Modelled from the spec: the classes of \<open>tools.codegen.model\<close> are not among the sources.
  Section 3 of the specification gives their fields.
\<close>

record OperatorName =
  namespace :: string
  base_name :: string
  overload :: "string option"

record FunctionSchema =
  name :: OperatorName
  signature :: string

record NativeFunction =
  func :: FunctionSchema
  dispatch :: string

record NativeFunctionsGroup =
  functional :: "NativeFunction option"
  inplace :: "NativeFunction option"
  out :: "NativeFunction option"

record ExternalBackendMetadata =
  operator :: OperatorName
  backend :: yaml
  is_autograd :: bool

record ExternalBackendFunction =
  native_function :: NativeFunction
  metadata :: "ExternalBackendMetadata option"

record ExternalBackendFunctionsGroup =
  ext_functional :: "ExternalBackendFunction option"
  ext_inplace :: "ExternalBackendFunction option"
  ext_out :: "ExternalBackendFunction option"

text \<open>\<open>Union[NativeFunction, NativeFunctionsGroup]\<close> and its external counterpart.\<close>

datatype native_entry = NF NativeFunction | NFG NativeFunctionsGroup

datatype external_entry = EF ExternalBackendFunction | EFG ExternalBackendFunctionsGroup

section \<open>Operator names\<close>

text \<open>
  Modelled from the spec: \<open>OperatorName.__str__\<close> is not among the sources. The canonical
  text form is \<open>namespace::base_name.overload\<close> or \<open>namespace::base_name\<close>; the grammar of
  section 4.1 makes the namespace optional, and a name without one is written without the
  separator.
\<close>

definition OperatorName_str :: "OperatorName \<Rightarrow> string" where
  "OperatorName_str n =
     (if namespace n = [] then [] else namespace n @ ''::'') @ base_name n @
     (case overload n of None \<Rightarrow> [] | Some ov \<Rightarrow> ''.'' @ ov)"

text \<open>
  Modelled from the spec: \<open>OperatorName.parse\<close> is not among the sources. It accepts the
  grammar \<open>[namespace::]base_name[.overload]\<close> and fails with \<open>ParseError\<close> otherwise. The
  namespace and the base name are non-empty and hold neither a colon nor a dot; the
  overload is whatever follows the first dot, non-empty and without a colon.
\<close>

definition parse_body :: "string \<Rightarrow> string \<Rightarrow> string \<Rightarrow> error + OperatorName" where
  "parse_body t ns body =
     (let base = takeWhile (\<lambda>c. c \<noteq> CHR ''.'') body;
          rest = dropWhile (\<lambda>c. c \<noteq> CHR ''.'') body
      in if base = [] \<or> CHR '':'' \<in> set body then Inl (ParseError t)
         else if rest = [] then
           Inr \<lparr>namespace = ns, base_name = base, overload = None\<rparr>
         else if tl rest = [] then Inl (ParseError t)
         else Inr \<lparr>namespace = ns, base_name = base, overload = Some (tl rest)\<rparr>)"

definition OperatorName_parse :: "string \<Rightarrow> error + OperatorName" where
  "OperatorName_parse t =
     (let ns = takeWhile (\<lambda>c. c \<noteq> CHR '':'') t;
          rest = dropWhile (\<lambda>c. c \<noteq> CHR '':'') t
      in if rest = [] then parse_body t [] t
         else if ns = [] \<or> CHR ''.'' \<in> set ns \<or> take 2 rest \<noteq> ''::'' then Inl (ParseError t)
         else parse_body t ns (drop 2 rest))"

text \<open>
  The parser applied to a value of the declaration: a string is parsed, any other value
  is no operator-name text.
\<close>

fun parse_op :: "yaml \<Rightarrow> error + OperatorName" where
  "parse_op (YStr s) = OperatorName_parse s"
| "parse_op _ = Inl (ParseError [])"

section \<open>Groups\<close>

text \<open>
  Modelled from the spec: \<open>NativeFunctionsGroup.functions\<close> is not among the sources. It
  yields the variants that are present, functional first, then in-place, then out. The
  name \<open>functions\<close> is taken in Isabelle, hence \<open>group_functions\<close>; \<open>ext_functions\<close> is the
  same for an external group.
\<close>

definition group_functions :: "NativeFunctionsGroup \<Rightarrow> NativeFunction list" where
  "group_functions g =
     (case functional g of None \<Rightarrow> [] | Some f \<Rightarrow> [f]) @
     (case inplace g of None \<Rightarrow> [] | Some f \<Rightarrow> [f]) @
     (case out g of None \<Rightarrow> [] | Some f \<Rightarrow> [f])"

definition ext_functions :: "ExternalBackendFunctionsGroup \<Rightarrow> ExternalBackendFunction list" where
  "ext_functions g =
     (case ext_functional g of None \<Rightarrow> [] | Some f \<Rightarrow> [f]) @
     (case ext_inplace g of None \<Rightarrow> [] | Some f \<Rightarrow> [f]) @
     (case ext_out g of None \<Rightarrow> [] | Some f \<Rightarrow> [f])"

type_synonym metadata_dict = "(OperatorName \<times> ExternalBackendMetadata) list"

text \<open>
  Modelled from the spec: \<open>ExternalBackendFunctionsGroup.from_function_group\<close> is not among
  the sources. Each present variant is resolved against the metadata on its own; the group
  keeps its variant slots.
\<close>

definition from_function_group ::
  "NativeFunctionsGroup \<Rightarrow> metadata_dict \<Rightarrow> ExternalBackendFunctionsGroup" where
  "from_function_group g md =
     \<lparr>ext_functional = map_option
        (\<lambda>f. \<lparr>native_function = f, metadata = dict_get md (name (func f))\<rparr>)
        (functional g),
      ext_inplace = map_option
        (\<lambda>f. \<lparr>native_function = f, metadata = dict_get md (name (func f))\<rparr>)
        (inplace g),
      ext_out = map_option
        (\<lambda>f. \<lparr>native_function = f, metadata = dict_get md (name (func f))\<rparr>)
        (out g)\<rparr>"

section \<open>parse_backend_yaml\<close>

text \<open>
  The two loops of lines 29 to 36: each element is parsed, a metadata record is built with
  the loop's flag, and the record is stored under its operator. The first element that
  fails to parse ends the loop with its error. Here \<open>b\<close> is the source's \<open>backend\<close> and
  \<open>md\<close> its \<open>metadata\<close>: both names are fields of the records above.
\<close>

fun add_metadata ::
  "(yaml \<Rightarrow> error + OperatorName) \<Rightarrow> yaml \<Rightarrow> bool \<Rightarrow> yaml list \<Rightarrow> metadata_dict
     \<Rightarrow> error + metadata_dict" where
  "add_metadata parse b flag [] md = Inr md"
| "add_metadata parse b flag (x # xs) md =
     (case parse x of
        Inl e \<Rightarrow> Inl e
      | Inr op_name \<Rightarrow>
          (let m = \<lparr>operator = op_name, backend = b, is_autograd = flag\<rparr>
           in add_metadata parse b flag xs (dict_set md (operator m) m)))"

text \<open>Lines 28 to 36: the metadata dictionary of a declaration.\<close>

definition build_metadata ::
  "(yaml \<Rightarrow> error + OperatorName) \<Rightarrow> yaml \<Rightarrow> yaml \<Rightarrow> yaml \<Rightarrow> error + metadata_dict" where
  "build_metadata parse b supported supported_autograd =
     (case py_iter supported of
        Inl e \<Rightarrow> Inl e
      | Inr ops \<Rightarrow>
         (case add_metadata parse b False ops [] of
            Inl e \<Rightarrow> Inl e
          | Inr md \<Rightarrow>
             (case py_iter supported_autograd of
                Inl e \<Rightarrow> Inl e
              | Inr ops' \<Rightarrow> add_metadata parse b True ops' md)))"

text \<open>Lines 38 to 41: every standalone function and every variant of every group, by name.\<close>

definition flatten :: "native_entry list \<Rightarrow> NativeFunction list" where
  "flatten grouped_native_functions =
     concatMap (\<lambda>f. case f of NF f' \<Rightarrow> [f'] | NFG g \<Rightarrow> group_functions g) grouped_native_functions"

definition native_functions_map :: "native_entry list \<Rightarrow> (OperatorName \<times> NativeFunction) list" where
  "native_functions_map grouped_native_functions =
     foldl (\<lambda>d f. dict_set d (name (func f)) f) [] (flatten grouped_native_functions)"

text \<open>Lines 43 to 53. The \<open>assert_never\<close> branch has no value of the union type to reach it.\<close>

fun native_to_external :: "metadata_dict \<Rightarrow> native_entry \<Rightarrow> external_entry" where
  "native_to_external md (NF f) =
     EF \<lparr>native_function = f, metadata = dict_get md (name (func f))\<rparr>"
| "native_to_external md (NFG g) = EFG (from_function_group g md)"

text \<open>
  The function, from the loaded document on (lines 20 to 57): \<open>parse\<close> is
  \<open>OperatorName.parse\<close>, which is not among the sources and is a parameter here. The loop
  of lines 54 to 56 raises at the first key of the metadata, in insertion order, that the
  registry does not hold; only then is the registry mapped through \<open>native_to_external\<close>.
\<close>

definition parse_backend_yaml ::
  "(yaml \<Rightarrow> error + OperatorName) \<Rightarrow> yaml \<Rightarrow> native_entry list
     \<Rightarrow> error + (yaml \<times> external_entry list)" where
  "parse_backend_yaml parse yaml_values grouped_native_functions =
     (case yaml_values of
        YDict d \<Rightarrow>
         (case py_getitem d ''cpp_namespace'' of Inl e \<Rightarrow> Inl e | Inr cpp_namespace \<Rightarrow>
         (case py_getitem d ''backend'' of Inl e \<Rightarrow> Inl e | Inr b \<Rightarrow>
         (case py_getitem d ''supported'' of Inl e \<Rightarrow> Inl e | Inr supported \<Rightarrow>
         (case py_getitem d ''autograd'' of Inl e \<Rightarrow> Inl e | Inr supported_autograd \<Rightarrow>
         (case build_metadata parse b supported supported_autograd of
            Inl e \<Rightarrow> Inl e
          | Inr md \<Rightarrow>
             (case find (\<lambda>op_name.
                      \<not> dict_contains (native_functions_map grouped_native_functions) op_name)
                    (dict_keys md) of
                Some op_name \<Rightarrow>
                  Inl (AssertionError
                        (''Found an invalid operator name: '' @ OperatorName_str op_name))
              | None \<Rightarrow>
                  Inr (cpp_namespace,
                       map (native_to_external md) grouped_native_functions)))))))
      | _ \<Rightarrow> Inl (AssertionError []))"

section \<open>main\<close>

datatype Target = NAMESPACED_DECLARATION | NAMESPACED_DEFINITION | REGISTRATION

text \<open>
  The mapping a \<open>fm.write\<close> callback returns: a template variable holds the namespace
  value or a list of generated fragments.
\<close>

datatype env_value = EnvValue yaml | EnvFragments "string list"

type_synonym env = "(string \<times> env_value) list"

text \<open>
  The code of \<open>tools.codegen.dest\<close>, the \<open>is_autograd_kernel\<close> property of the external
  entries and the template substitution of \<open>FileManager\<close> are not among the sources; they
  are parameters of \<open>main\<close>, collected in one record. They are taken as total functions:
  an exception raised inside them is outside this model.
\<close>

record codegen =
  compute_native_function_declaration :: "external_entry \<Rightarrow> string list"
  GenExternalAtenFallback :: "Target \<Rightarrow> external_entry \<Rightarrow> string list"
  is_autograd_kernel :: "external_entry \<Rightarrow> bool"
  substitute :: "string \<Rightarrow> env \<Rightarrow> string"

text \<open>The output directory: artifact name to content.\<close>

type_synonym files = "string \<Rightarrow> string option"

text \<open>
  Modelled from the spec: \<open>FileManager.write\<close> is not among the sources (\<open>write\<close> is taken
  in Isabelle, hence \<open>fm_write\<close>). It evaluates the callback, substitutes the mapping into
  the template of that name and stores the text under the name.
\<close>

definition fm_write :: "codegen \<Rightarrow> files \<Rightarrow> string \<Rightarrow> env \<Rightarrow> files" where
  "fm_write cg fm filename e = fm(filename \<mapsto> substitute cg filename e)"

text \<open>Lines 105 to 107 and 108 to 110: the two registration lists.\<close>

definition dispatch_registrations :: "codegen \<Rightarrow> external_entry list \<Rightarrow> string list" where
  "dispatch_registrations cg external_backend_functions =
     concatMap (GenExternalAtenFallback cg REGISTRATION)
       (filter (\<lambda>e. \<not> is_autograd_kernel cg e) external_backend_functions)"

definition dispatch_autograd_registrations ::
  "codegen \<Rightarrow> external_entry list \<Rightarrow> string list" where
  "dispatch_autograd_registrations cg external_backend_functions =
     concatMap (GenExternalAtenFallback cg REGISTRATION)
       (filter (\<lambda>e. is_autograd_kernel cg e) external_backend_functions)"

text \<open>
  \<open>main\<close> from line 80 on, given the loaded declaration and the grouped registry (the
  result of \<open>get_grouped_native_functions\<close>, line 79). The second parse of the registry
  at line 82 and the selector of line 84 are not used by what follows. \<open>main\<close> returns the
  output directory as it is when it ends, and the exception if one ended it.
\<close>

definition main ::
  "(yaml \<Rightarrow> error + OperatorName) \<Rightarrow> codegen \<Rightarrow> yaml \<Rightarrow> native_entry list \<Rightarrow> files
     \<Rightarrow> files \<times> (error + unit)" where
  "main parse cg yaml_values grouped_native_functions fm =
     (case parse_backend_yaml parse yaml_values grouped_native_functions of
        Inl e \<Rightarrow> (fm, Inl e)
      | Inr (cpp_namespace, external_backend_functions) \<Rightarrow>
          (let fm1 = fm_write cg fm ''aten_xla_type.h''
                 [(''cpp_namespace'', EnvValue cpp_namespace),
                  (''dispatch_xla_declarations'',
                   EnvFragments (concatMap (compute_native_function_declaration cg)
                     external_backend_functions))];
               fm2 = fm_write cg fm1 ''aten_xla_type_default.h''
                 [(''cpp_namespace'', EnvValue cpp_namespace),
                  (''dispatch_aten_fallback_declarations'',
                   EnvFragments (concatMap (GenExternalAtenFallback cg NAMESPACED_DECLARATION)
                     external_backend_functions))];
               fm3 = fm_write cg fm2 ''aten_xla_type_default.cpp''
                 [(''cpp_namespace'', EnvValue cpp_namespace),
                  (''dispatch_aten_fallback_definitions'',
                   EnvFragments (concatMap (GenExternalAtenFallback cg NAMESPACED_DEFINITION)
                     external_backend_functions)),
                  (''dispatch_registrations'',
                   EnvFragments (dispatch_registrations cg external_backend_functions)),
                  (''dispatch_autograd_registrations'',
                   EnvFragments (dispatch_autograd_registrations cg external_backend_functions))]
           in (fm3, Inr ())))"

section \<open>Notions used in the statements\<close>

text \<open>The operator names the registry knows: those of its standalone functions and of the
  variants of its groups.\<close>

definition registry_names :: "native_entry list \<Rightarrow> OperatorName set" where
  "registry_names grouped_native_functions =
     set (map (\<lambda>f. name (func f)) (flatten grouped_native_functions))"


text \<open>The functions of an external entry: itself, or the present variants of a group.\<close>

fun external_functions :: "external_entry \<Rightarrow> ExternalBackendFunction list" where
  "external_functions (EF f) = [f]"
| "external_functions (EFG g) = ext_functions g"

text \<open>
  Modelled from the spec: \<open>dest.GenExternalAtenFallback\<close> is not among the sources. For the
  registration target (section 4.5) it emits one fragment for each function that carries
  metadata, none for a function without, and a group yields the fragments of its present
  variants in order. \<open>reg\<close> is the text of one fragment.
\<close>

definition gen_registration ::
  "(ExternalBackendFunction \<Rightarrow> string) \<Rightarrow> external_entry \<Rightarrow> string list" where
  "gen_registration reg e =
     concatMap (\<lambda>f. case metadata f of None \<Rightarrow> [] | Some m \<Rightarrow> [reg f])
       (external_functions e)"

text \<open>
  A function resolved against the metadata: the external function holds the native
  function, and its metadata is the entry stored under the function's operator name,
  \<open>None\<close> exactly when the dictionary has no such key.
\<close>

definition resolved :: "metadata_dict \<Rightarrow> NativeFunction \<Rightarrow> ExternalBackendFunction \<Rightarrow> bool" where
  "resolved md f ef \<longleftrightarrow>
     native_function ef = f \<and> metadata ef = dict_get md (name (func f)) \<and>
     (metadata ef = None) = (\<not> dict_contains md (name (func f)))"


text \<open>The four keys \<open>parse_backend_yaml\<close> reads, in the order it reads them.\<close>

definition required_fields :: "string list" where
  "required_fields = [''cpp_namespace'', ''backend'', ''supported'', ''autograd'']"





text \<open>
  The canonical grammar \<open>namespace::base_name\<close> with an optional \<open>.overload\<close>: namespace and
  base name are identifiers (non-empty, without colon or dot), an overload is non-empty and
  without colon.
\<close>

definition ident :: "string \<Rightarrow> bool" where
  "ident s \<longleftrightarrow> s \<noteq> [] \<and> CHR '':'' \<notin> set s \<and> CHR ''.'' \<notin> set s"

definition canonical :: "OperatorName \<Rightarrow> bool" where
  "canonical n \<longleftrightarrow> ident (namespace n) \<and> ident (base_name n) \<and>
     (case overload n of None \<Rightarrow> True | Some ov \<Rightarrow> ov \<noteq> [] \<and> CHR '':'' \<notin> set ov)"

section \<open>A small registry and backend\<close>

text \<open>
  The scenario of section 8 of the specification: a registry with \<open>add\<close> and \<open>sub\<close>, a
  backend declaration listing operator names, and generators that emit the operator's
  name as the fragment.
\<close>

definition opname :: "string \<Rightarrow> OperatorName" where
  "opname s = \<lparr>namespace = ''aten'', base_name = s, overload = None\<rparr>"

definition native :: "string \<Rightarrow> NativeFunction" where
  "native s = \<lparr>func = \<lparr>name = opname s, signature = ''(Tensor, Tensor) -> Tensor''\<rparr>,
                dispatch = []\<rparr>"

definition backend_declaration :: "yaml list \<Rightarrow> yaml list \<Rightarrow> (string \<times> yaml) list" where
  "backend_declaration supported autograd =
     [(''cpp_namespace'', YStr ''torch_xla''), (''backend'', YStr ''XLA''),
      (''supported'', YList supported), (''autograd'', YList autograd)]"

definition external_name :: "ExternalBackendFunction \<Rightarrow> string" where
  "external_name f = OperatorName_str (name (func (native_function f)))"

definition example_codegen :: codegen where
  "example_codegen =
     \<lparr>compute_native_function_declaration = (\<lambda>e. map external_name (external_functions e)),
      GenExternalAtenFallback = (\<lambda>t e. case t of
          REGISTRATION \<Rightarrow> gen_registration external_name e
        | _ \<Rightarrow> map external_name (external_functions e)),
      is_autograd_kernel = (\<lambda>e. list_ex
          (\<lambda>f. case metadata f of None \<Rightarrow> False | Some m \<Rightarrow> is_autograd m)
          (external_functions e)),
      substitute = (\<lambda>filename e. concat (map (\<lambda>(k, v). case v of
          EnvValue _ \<Rightarrow> []
        | EnvFragments fs \<Rightarrow> k @ '':'' @ concat (map (\<lambda>f. '' '' @ f) fs) @ '';'') e))\<rparr>"









section \<open>Dictionaries\<close>

lemma map_of_dict_set: "map_of (dict_set d k v) = (map_of d)(k \<mapsto> v)"
  by (induction d k v rule: dict_set.induct) (auto simp: fun_eq_iff)

lemma keys_dict_set: "fst ` set (dict_set d k v) = insert k (fst ` set d)"
  by (induction d k v rule: dict_set.induct) auto

lemma distinct_dict_set: "distinct (map fst d) \<Longrightarrow> distinct (map fst (dict_set d k v))"
  by (induction d k v rule: dict_set.induct) (auto simp: keys_dict_set)

lemma add_metadata_parsed:
  "map parse xs = map Inr ns \<Longrightarrow>
   add_metadata parse b flag xs md =
     Inr (foldl (\<lambda>d n. dict_set d n \<lparr>operator = n, backend = b, is_autograd = flag\<rparr>) md ns)"
proof (induction xs arbitrary: md ns)
  case Nil
  then show ?case by simp
next
  case (Cons x xs)
  then obtain n ns' where ns: "ns = n # ns'" "parse x = Inr n" "map parse xs = map Inr ns'"
    by (cases ns) auto
  show ?case using Cons.IH [OF ns(3)] ns by (simp add: Let_def)
qed

lemma map_of_fold_set:
  "map_of (foldl (\<lambda>d n. dict_set d n (f n)) md ns) k =
     (if k \<in> set ns then Some (f k) else map_of md k)"
  by (induction ns arbitrary: md) (auto simp: map_of_dict_set)

lemma keys_fold_set:
  "fst ` set (foldl (\<lambda>d n. dict_set d (g n) (f n)) md ns) = fst ` set md \<union> g ` set ns"
  by (induction ns arbitrary: md) (simp_all add: keys_dict_set)

lemma distinct_fold_set:
  "distinct (map fst md) \<Longrightarrow> distinct (map fst (foldl (\<lambda>d n. dict_set d (g n) (f n)) md ns))"
  by (induction ns arbitrary: md) (auto simp: distinct_dict_set)

lemma dict_get_None: "dict_get md k = None \<longleftrightarrow> \<not> dict_contains md k"
  by (simp add: dict_get_def dict_contains_def dict_keys_def map_of_eq_None_iff)

lemma dict_get_member:
  assumes "distinct (dict_keys md)" and "(k, m) \<in> set md"
  shows "dict_get md k = Some m"
  using assms by (simp add: dict_get_def dict_keys_def)

lemma count_list_distinct: "distinct xs \<Longrightarrow> x \<in> set xs \<Longrightarrow> count_list xs x = 1"
  by (induction xs) auto

section \<open>The metadata of a declaration\<close>

lemma build_metadata_parsed:
  assumes "map parse supported = map Inr snames" and "map parse autograd = map Inr anames"
  shows "build_metadata parse b (YList supported) (YList autograd) =
     Inr (foldl (\<lambda>d n. dict_set d n \<lparr>operator = n, backend = b, is_autograd = True\<rparr>)
           (foldl (\<lambda>d n. dict_set d n \<lparr>operator = n, backend = b, is_autograd = False\<rparr>)
              [] snames) anames)"
  by (simp add: build_metadata_def add_metadata_parsed [OF assms(1)]
      add_metadata_parsed [OF assms(2)])

lemma build_metadata_keys:
  assumes "map parse supported = map Inr snames" and "map parse autograd = map Inr anames"
    and "build_metadata parse b (YList supported) (YList autograd) = Inr md"
  shows "set (dict_keys md) = set (snames @ anames)" and "distinct (dict_keys md)"
proof -
  let ?f = "\<lambda>flag n. \<lparr>operator = n, backend = b, is_autograd = flag\<rparr>"
  have md: "md = foldl (\<lambda>d n. dict_set d n (?f True n))
      (foldl (\<lambda>d n. dict_set d n (?f False n)) [] snames) anames"
    using assms(3) unfolding build_metadata_parsed [OF assms(1,2)] by simp
  have "fst ` set md = set snames \<union> set anames"
    unfolding md
    using keys_fold_set [of "\<lambda>n. n" "?f True" _ anames]
      keys_fold_set [of "\<lambda>n. n" "?f False" "[]" snames]
    by simp
  then show "set (dict_keys md) = set (snames @ anames)"
    by (simp add: dict_keys_def)
  have "distinct (map fst md)"
    unfolding md
    using distinct_fold_set [of _ "\<lambda>n. n" "?f True" anames]
      distinct_fold_set [of "[]" "\<lambda>n. n" "?f False" snames]
    by simp
  then show "distinct (dict_keys md)"
    by (simp add: dict_keys_def)
qed

lemma build_metadata_get:
  assumes "map parse supported = map Inr snames" and "map parse autograd = map Inr anames"
    and "build_metadata parse b (YList supported) (YList autograd) = Inr md"
  shows "dict_get md n =
     (if n \<in> set anames then Some \<lparr>operator = n, backend = b, is_autograd = True\<rparr>
      else if n \<in> set snames then Some \<lparr>operator = n, backend = b, is_autograd = False\<rparr>
      else None)"
  using assms(3) unfolding build_metadata_parsed [OF assms(1,2)] dict_get_def
  by (auto simp: map_of_fold_set)

lemma contains_native_functions_map:
  "dict_contains (native_functions_map reg) n \<longleftrightarrow> n \<in> registry_names reg"
  using keys_fold_set [of "\<lambda>f. name (func f)" "\<lambda>f. f" "[]" "flatten reg"]
  by (simp add: dict_contains_def dict_keys_def native_functions_map_def registry_names_def)


lemma find_None_iff': "find P xs = None \<longleftrightarrow> (\<forall>x\<in>set xs. \<not> P x)"
  by (induction xs) auto

lemma find_SomeD: "find P xs = Some x \<Longrightarrow> x \<in> set xs \<and> P x"
  by (induction xs) (auto split: if_splits)

section \<open>The example evaluated\<close>

lemma parse_op_add: "OperatorName_parse ''aten::add'' = Inr (opname ''add'')"
  by (simp add: OperatorName_parse_def parse_body_def opname_def Let_def)

lemma parse_op_sub: "OperatorName_parse ''aten::sub'' = Inr (opname ''sub'')"
  by (simp add: OperatorName_parse_def parse_body_def opname_def Let_def)

lemma parse_op_mul: "OperatorName_parse ''aten::mul'' = Inr (opname ''mul'')"
  by (simp add: OperatorName_parse_def parse_body_def opname_def Let_def)

lemma registry_names_example:
  "registry_names [NF (native ''add''), NF (native ''sub'')] = {opname ''add'', opname ''sub''}"
  by (auto simp add: registry_names_def flatten_def concatMap_def native_def)


section \<open>Registration fragments of one entry and of a list\<close>



section \<open>Splitting a text at its first separator\<close>

lemma takeWhile_stop: "c \<notin> set xs \<Longrightarrow> takeWhile (\<lambda>x. x \<noteq> c) (xs @ c # ys) = xs"
  by (induction xs) auto

lemma dropWhile_stop: "c \<notin> set xs \<Longrightarrow> dropWhile (\<lambda>x. x \<noteq> c) (xs @ c # ys) = c # ys"
  by (induction xs) auto

lemma takeWhile_all: "c \<notin> set xs \<Longrightarrow> takeWhile (\<lambda>x. x \<noteq> c) xs = xs"
  by (induction xs) auto

lemma dropWhile_all: "c \<notin> set xs \<Longrightarrow> dropWhile (\<lambda>x. x \<noteq> c) xs = []"
  by (induction xs) auto

lemma split_at_first:
  assumes "dropWhile (\<lambda>x. x \<noteq> c) xs \<noteq> []"
  shows "xs = takeWhile (\<lambda>x. x \<noteq> c) xs @ c # tl (dropWhile (\<lambda>x. x \<noteq> c) xs)"
proof -
  let ?P = "\<lambda>x. x \<noteq> c"
  have "\<not> ?P (hd (dropWhile ?P xs))"
    using assms by (rule hd_dropWhile)
  then have "hd (dropWhile ?P xs) = c" by simp
  with assms have "dropWhile ?P xs = c # tl (dropWhile ?P xs)"
    by (cases "dropWhile ?P xs") simp_all
  then have "takeWhile ?P xs @ dropWhile ?P xs =
      takeWhile ?P xs @ c # tl (dropWhile ?P xs)"
    by simp
  then show ?thesis by simp
qed

lemma no_stop: "dropWhile (\<lambda>x. x \<noteq> c) xs = [] \<Longrightarrow> takeWhile (\<lambda>x. x \<noteq> c) xs = xs"
  using takeWhile_dropWhile_id [of "\<lambda>x. x \<noteq> c" xs] by simp

lemma parse_body_text:
  assumes "parse_body t ns body = Inr n"
  shows "namespace n = ns \<and>
     base_name n @ (case overload n of None \<Rightarrow> [] | Some ov \<Rightarrow> ''.'' @ ov) = body"
proof -
  define base where "base = takeWhile (\<lambda>c. c \<noteq> CHR ''.'') body"
  define rest where "rest = dropWhile (\<lambda>c. c \<noteq> CHR ''.'') body"
  have pb: "parse_body t ns body =
     (if base = [] \<or> CHR '':'' \<in> set body then Inl (ParseError t)
      else if rest = [] then Inr \<lparr>namespace = ns, base_name = base, overload = None\<rparr>
      else if tl rest = [] then Inl (ParseError t)
      else Inr \<lparr>namespace = ns, base_name = base, overload = Some (tl rest)\<rparr>)"
    unfolding parse_body_def base_def rest_def Let_def ..
  show ?thesis
  proof (cases "rest = []")
    case True
    then have "base = body"
      unfolding base_def rest_def by (rule no_stop)
    moreover from True assms have "n = \<lparr>namespace = ns, base_name = base, overload = None\<rparr>"
      unfolding pb by (simp split: if_splits)
    ultimately show ?thesis by simp
  next
    case False
    then have "body = base @ CHR ''.'' # tl rest"
      unfolding base_def rest_def by (rule split_at_first)
    moreover from False assms
    have "n = \<lparr>namespace = ns, base_name = base, overload = Some (tl rest)\<rparr>"
      unfolding pb by (simp split: if_splits)
    ultimately show ?thesis by simp
  qed
qed

lemma parse_str:
  assumes "OperatorName_parse t = Inr n"
  shows "OperatorName_str n = t"
proof -
  define ns where "ns = takeWhile (\<lambda>c. c \<noteq> CHR '':'') t"
  define rest where "rest = dropWhile (\<lambda>c. c \<noteq> CHR '':'') t"
  have p: "OperatorName_parse t =
     (if rest = [] then parse_body t [] t
      else if ns = [] \<or> CHR ''.'' \<in> set ns \<or> take 2 rest \<noteq> ''::'' then Inl (ParseError t)
      else parse_body t ns (drop 2 rest))"
    unfolding OperatorName_parse_def ns_def rest_def Let_def ..
  show ?thesis
  proof (cases "rest = []")
    case True
    with assms have "parse_body t [] t = Inr n"
      unfolding p by simp
    from parse_body_text [OF this] show ?thesis
      by (simp add: OperatorName_str_def)
  next
    case False
    with assms have ns: "ns \<noteq> []" and two: "take 2 rest = ''::''"
      and body: "parse_body t ns (drop 2 rest) = Inr n"
      unfolding p by (simp_all split: if_splits)
    have "t = ns @ rest"
      unfolding ns_def rest_def by simp
    also have "rest = take 2 rest @ drop 2 rest"
      by simp
    finally have t: "t = ns @ ''::'' @ drop 2 rest"
      unfolding two .
    from parse_body_text [OF body] ns
    have "OperatorName_str n = ns @ ''::'' @ drop 2 rest"
      by (simp add: OperatorName_str_def)
    with t show ?thesis by simp
  qed
qed

lemma str_parse:
  assumes "canonical n"
  shows "OperatorName_parse (OperatorName_str n) = Inr n"
proof -
  obtain ns base ov where n: "n = \<lparr>namespace = ns, base_name = base, overload = ov\<rparr>"
    by (cases n) simp
  define suffix where "suffix = (case ov of None \<Rightarrow> [] | Some s \<Rightarrow> CHR ''.'' # s)"
  define body where "body = base @ suffix"
  from assms n have ns: "ns \<noteq> []" "CHR '':'' \<notin> set ns" "CHR ''.'' \<notin> set ns"
    and base: "base \<noteq> []" "CHR '':'' \<notin> set base" "CHR ''.'' \<notin> set base"
    by (simp_all add: canonical_def ident_def)
  from assms n have ov: "ov = Some s \<Longrightarrow> s \<noteq> [] \<and> CHR '':'' \<notin> set s" for s
    by (simp add: canonical_def)
  have str: "OperatorName_str n = ns @ CHR '':'' # CHR '':'' # body"
    using ns(1) n by (simp add: OperatorName_str_def body_def suffix_def split: option.splits)
  have tw: "takeWhile (\<lambda>c. c \<noteq> CHR '':'') (ns @ CHR '':'' # CHR '':'' # body) = ns"
    using ns(2) by (rule takeWhile_stop)
  have dw: "dropWhile (\<lambda>c. c \<noteq> CHR '':'') (ns @ CHR '':'' # CHR '':'' # body) =
      CHR '':'' # CHR '':'' # body"
    using ns(2) by (rule dropWhile_stop)
  have nc: "CHR '':'' \<notin> set body"
    using base(2) ov by (cases ov) (simp_all add: body_def suffix_def)
  have tb: "takeWhile (\<lambda>c. c \<noteq> CHR ''.'') body = base"
  proof (cases ov)
    case None
    then show ?thesis
      using takeWhile_all [OF base(3)] by (simp add: body_def suffix_def)
  next
    case (Some s)
    then show ?thesis
      using takeWhile_stop [OF base(3), of s] by (simp add: body_def suffix_def)
  qed
  have db: "dropWhile (\<lambda>c. c \<noteq> CHR ''.'') body = suffix"
  proof (cases ov)
    case None
    then show ?thesis
      using dropWhile_all [OF base(3)] by (simp add: body_def suffix_def)
  next
    case (Some s)
    then show ?thesis
      using dropWhile_stop [OF base(3), of s] by (simp add: body_def suffix_def)
  qed
  have pb: "parse_body t ns body = Inr n" for t
  proof (cases ov)
    case None
    then have "suffix = []" by (simp add: suffix_def)
    then show ?thesis
      unfolding parse_body_def Let_def tb db using base(1) nc n None by simp
  next
    case (Some s)
    then have "suffix = CHR ''.'' # s" by (simp add: suffix_def)
    then show ?thesis
      unfolding parse_body_def Let_def tb db using base(1) nc n Some ov [OF Some] by simp
  qed
  show ?thesis
    unfolding str OperatorName_parse_def Let_def tw dw
    using ns(1,3) pb by simp
qed

section \<open>Resolution of a registry\<close>





section \<open>Registration fragments of the specification's generator\<close>





section \<open>Validation against the registry\<close>

text \<open>
  C1. A declaration whose four fields are present, whose \<open>supported\<close> and \<open>autograd\<close> lists
  parse, and which names an operator that the registry does not hold: \<open>parse_backend_yaml\<close>
  raises the assertion of line 56 (the specification's \<open>UnknownOperatorError\<close>), whose
  message ends with the text of an operator of the declaration that is absent from the
  registry; \<open>main\<close> ends with that error and the output directory is what it was, so none
  of the three artifacts has been written.
\<close>

theorem unknown_operator_fails:
  assumes "py_getitem d ''cpp_namespace'' = Inr ns"
    and "py_getitem d ''backend'' = Inr b"
    and "py_getitem d ''supported'' = Inr (YList supported)"
    and "py_getitem d ''autograd'' = Inr (YList autograd)"
    and "map parse supported = map Inr snames"
    and "map parse autograd = map Inr anames"
    and "\<not> set (snames @ anames) \<subseteq> registry_names reg"
  shows "\<exists>n. n \<in> set (snames @ anames) \<and> n \<notin> registry_names reg \<and>
     parse_backend_yaml parse (YDict d) reg =
       Inl (AssertionError (''Found an invalid operator name: '' @ OperatorName_str n)) \<and>
     main parse cg (YDict d) reg fm =
       (fm, Inl (AssertionError (''Found an invalid operator name: '' @ OperatorName_str n)))"
proof -
  obtain md where md: "build_metadata parse b (YList supported) (YList autograd) = Inr md"
    using build_metadata_parsed [OF assms(5,6)] by blast
  have keys: "set (dict_keys md) = set (snames @ anames)"
    using build_metadata_keys(1) [OF assms(5,6) md] .
  let ?P = "\<lambda>op_name. \<not> dict_contains (native_functions_map reg) op_name"
  have "find ?P (dict_keys md) \<noteq> None"
    using assms(7) keys by (auto simp: find_None_iff' contains_native_functions_map)
  then obtain n where n: "find ?P (dict_keys md) = Some n" by blast
  from find_SomeD [OF n] keys
  have n1: "n \<in> set (snames @ anames)" and n2: "n \<notin> registry_names reg"
    by (auto simp: contains_native_functions_map)
  have p: "parse_backend_yaml parse (YDict d) reg =
      Inl (AssertionError (''Found an invalid operator name: '' @ OperatorName_str n))"
    by (simp add: parse_backend_yaml_def assms(1-4) md n)
  have "main parse cg (YDict d) reg fm =
      (fm, Inl (AssertionError (''Found an invalid operator name: '' @ OperatorName_str n)))"
    by (simp add: main_def p)
  with n1 n2 p show ?thesis by blast
qed

theorem unknown_operator_fails_witness:
  "parse_backend_yaml parse_op
     (YDict (backend_declaration [YStr ''aten::add''] [YStr ''aten::mul'']))
     [NF (native ''add''), NF (native ''sub'')] =
     Inl (AssertionError ''Found an invalid operator name: aten::mul'') \<and>
   main parse_op example_codegen
     (YDict (backend_declaration [YStr ''aten::add''] [YStr ''aten::mul'']))
     [NF (native ''add''), NF (native ''sub'')] Map.empty =
     (Map.empty, Inl (AssertionError ''Found an invalid operator name: aten::mul''))"
proof -
  let ?d = "backend_declaration [YStr ''aten::add''] [YStr ''aten::mul'']"
  let ?reg = "[NF (native ''add''), NF (native ''sub'')]"
  have "\<exists>n. n \<in> set ([opname ''add''] @ [opname ''mul'']) \<and> n \<notin> registry_names ?reg \<and>
     parse_backend_yaml parse_op (YDict ?d) ?reg =
       Inl (AssertionError (''Found an invalid operator name: '' @ OperatorName_str n)) \<and>
     main parse_op example_codegen (YDict ?d) ?reg Map.empty =
       (Map.empty,
        Inl (AssertionError (''Found an invalid operator name: '' @ OperatorName_str n)))"
    by (rule unknown_operator_fails [where ns = "YStr ''torch_xla''" and b = "YStr ''XLA''"
          and supported = "[YStr ''aten::add'']" and autograd = "[YStr ''aten::mul'']"])
      (simp_all add: backend_declaration_def py_getitem_def parse_op_add parse_op_mul
        registry_names_example opname_def)
  then obtain n where n: "n \<in> set ([opname ''add''] @ [opname ''mul''])"
      "n \<notin> registry_names ?reg"
    and r: "parse_backend_yaml parse_op (YDict ?d) ?reg =
       Inl (AssertionError (''Found an invalid operator name: '' @ OperatorName_str n))"
      "main parse_op example_codegen (YDict ?d) ?reg Map.empty =
       (Map.empty,
        Inl (AssertionError (''Found an invalid operator name: '' @ OperatorName_str n)))"
    by blast
  from n have "n = opname ''mul''"
    by (auto simp: registry_names_example)
  then have "OperatorName_str n = ''aten::mul''"
    by (simp add: opname_def OperatorName_str_def)
  with r show ?thesis by simp
qed



text \<open>
  C4. What resolution makes of one registry entry. A standalone function becomes an
  external function that holds it, with the metadata stored under its operator name
  (\<open>None\<close> exactly when the backend declared no such operator). A group becomes an external
  group with the same variant slots: a slot is present exactly when it was, and each
  present variant is resolved against the metadata on its own.
\<close>

theorem native_to_external_resolves:
  "(\<exists>ef. native_to_external md (NF f) = EF ef \<and> resolved md f ef) \<and>
   (\<exists>eg. native_to_external md (NFG g) = EFG eg \<and>
      rel_option (resolved md) (functional g) (ext_functional eg) \<and>
      rel_option (resolved md) (inplace g) (ext_inplace eg) \<and>
      rel_option (resolved md) (out g) (ext_out eg))"
  by (simp add: resolved_def from_function_group_def dict_get_None option.rel_map
      option.rel_refl)

section \<open>The metadata dictionary\<close>

text \<open>
  C5, as amended. For a declaration whose \<open>supported\<close> and \<open>autograd\<close> lists parse, lines 28
  to 36 build one dictionary keyed by the parsed operator names: its keys are exactly the
  names of the two lists, each once; every name of the \<open>autograd\<close> list is stored with
  \<open>is_autograd\<close> true; every name of the \<open>supported\<close> list that is not also in the
  \<open>autograd\<close> list is stored with \<open>is_autograd\<close> false; every entry is stored under its own
  operator and carries the backend value of the declaration.
\<close>

theorem metadata_of_declaration:
  assumes "map parse supported = map Inr snames"
    and "map parse autograd = map Inr anames"
  shows "\<exists>md. build_metadata parse b (YList supported) (YList autograd) = Inr md \<and>
     set (dict_keys md) = set snames \<union> set anames \<and>
     distinct (dict_keys md) \<and>
     (\<forall>n\<in>set anames.
        dict_get md n = Some \<lparr>operator = n, backend = b, is_autograd = True\<rparr>) \<and>
     (\<forall>n\<in>set snames - set anames.
        dict_get md n = Some \<lparr>operator = n, backend = b, is_autograd = False\<rparr>) \<and>
     (\<forall>(k, m)\<in>set md. operator m = k \<and> backend m = b)"
proof -
  obtain md where md: "build_metadata parse b (YList supported) (YList autograd) = Inr md"
    using build_metadata_parsed [OF assms] by blast
  note keys = build_metadata_keys [OF assms md]
  note get = build_metadata_get [OF assms md]
  have "operator m = k \<and> backend m = b" if "(k, m) \<in> set md" for k m
  proof -
    have "dict_get md k = Some m"
      using dict_get_member [OF keys(2) that] .
    then show ?thesis
      unfolding get by (auto split: if_splits)
  qed
  then have "\<forall>(k, m)\<in>set md. operator m = k \<and> backend m = b"
    by blast
  moreover have "\<forall>n\<in>set anames.
      dict_get md n = Some \<lparr>operator = n, backend = b, is_autograd = True\<rparr>"
    by (simp add: get)
  moreover have "\<forall>n\<in>set snames - set anames.
      dict_get md n = Some \<lparr>operator = n, backend = b, is_autograd = False\<rparr>"
    by (simp add: get)
  ultimately show ?thesis
    using md keys by auto
qed

theorem metadata_of_declaration_witness:
  "\<exists>md. build_metadata parse_op (YStr ''XLA'')
       (YList [YStr ''aten::add'', YStr ''aten::mul'']) (YList [YStr ''aten::sub'']) = Inr md \<and>
     set (dict_keys md) = set [opname ''add'', opname ''mul''] \<union> set [opname ''sub''] \<and>
     distinct (dict_keys md) \<and>
     (\<forall>n\<in>set [opname ''sub''].
        dict_get md n = Some \<lparr>operator = n, backend = YStr ''XLA'', is_autograd = True\<rparr>) \<and>
     (\<forall>n\<in>set [opname ''add'', opname ''mul''] - set [opname ''sub''].
        dict_get md n = Some \<lparr>operator = n, backend = YStr ''XLA'', is_autograd = False\<rparr>) \<and>
     (\<forall>(k, m)\<in>set md. operator m = k \<and> backend m = YStr ''XLA'')"
  by (rule metadata_of_declaration) (simp_all add: parse_op_add parse_op_sub parse_op_mul)

text \<open>
  The claim as stated fails for a name that is in both lists: \<open>aten::add\<close> comes from the
  \<open>supported\<close> list, and the dictionary stores it with \<open>is_autograd\<close> true.
\<close>

theorem supported_name_autograd_counterexample:
  "parse_op (YStr ''aten::add'') = Inr (opname ''add'') \<and>
   build_metadata parse_op (YStr ''XLA'')
     (YList [YStr ''aten::add'']) (YList [YStr ''aten::add'']) =
     Inr [(opname ''add'',
           \<lparr>operator = opname ''add'', backend = YStr ''XLA'', is_autograd = True\<rparr>)]"
  by (simp add: build_metadata_def parse_op_add Let_def)

text \<open>
  C6. For a declaration whose lists parse and an operator name that is in both of them, the
  dictionary is built without an error, it holds the name once, and the entry stored under
  it is the one of the \<open>autograd\<close> loop, with \<open>is_autograd\<close> true.
\<close>

theorem duplicate_overwritten:
  assumes "map parse supported = map Inr snames"
    and "map parse autograd = map Inr anames"
    and "n \<in> set snames" and "n \<in> set anames"
  shows "\<exists>md. build_metadata parse b (YList supported) (YList autograd) = Inr md \<and>
     dict_get md n = Some \<lparr>operator = n, backend = b, is_autograd = True\<rparr> \<and>
     count_list (dict_keys md) n = 1"
proof -
  obtain md where md: "build_metadata parse b (YList supported) (YList autograd) = Inr md"
    using build_metadata_parsed [OF assms(1,2)] by blast
  note keys = build_metadata_keys [OF assms(1,2) md]
  have "n \<in> set (dict_keys md)"
    using keys(1) assms(3) by simp
  with keys(2) have "count_list (dict_keys md) n = 1"
    by (rule count_list_distinct)
  moreover have "dict_get md n = Some \<lparr>operator = n, backend = b, is_autograd = True\<rparr>"
    using assms(4) by (simp add: build_metadata_get [OF assms(1,2) md])
  ultimately show ?thesis using md by simp
qed

theorem duplicate_overwritten_witness:
  "\<exists>md. build_metadata parse_op (YStr ''XLA'')
       (YList [YStr ''aten::sub'', YStr ''aten::add'']) (YList [YStr ''aten::add'']) = Inr md \<and>
     dict_get md (opname ''add'') =
       Some \<lparr>operator = opname ''add'', backend = YStr ''XLA'', is_autograd = True\<rparr> \<and>
     count_list (dict_keys md) (opname ''add'') = 1"
  by (rule duplicate_overwritten [where snames = "[opname ''sub'', opname ''add'']"
        and anames = "[opname ''add'']"])
    (simp_all add: parse_op_add parse_op_sub)

section \<open>Malformed declarations\<close>

text \<open>
  C7, as stated, fails: the shape of the values is not checked. A declaration whose
  \<open>cpp_namespace\<close> is the number 5 instead of a string is accepted, and the number is
  returned as the namespace.
\<close>

theorem unchecked_shape_counterexample:
  "parse_backend_yaml parse_op
     (YDict [(''cpp_namespace'', YInt 5), (''backend'', YStr ''XLA''),
             (''supported'', YList []), (''autograd'', YList [])])
     [NF (native ''add'')] =
     Inr (YInt 5, [EF \<lparr>native_function = native ''add'', metadata = None\<rparr>])"
  by (simp add: parse_backend_yaml_def py_getitem_def build_metadata_def dict_keys_def
      dict_get_def)

text \<open>
  C7, as amended. A mapping that lacks one of the four required keys makes
  \<open>parse_backend_yaml\<close> fail with the \<open>KeyError\<close> of the first key that is missing, in the
  order \<open>cpp_namespace\<close>, \<open>backend\<close>, \<open>supported\<close>, \<open>autograd\<close>. With the four keys present, a
  \<open>supported\<close> value that cannot be iterated fails with its \<open>TypeError\<close>, and so does an
  \<open>autograd\<close> value that cannot be iterated once the \<open>supported\<close> list has been read. In
  each case the failure is the result of the call, no entry is resolved, and \<open>main\<close> writes
  nothing.
\<close>

theorem missing_field_fails:
  "(k \<in> set required_fields \<and> map_of d k = None \<longrightarrow>
      (\<exists>k'. find (\<lambda>k. map_of d k = None) required_fields = Some k' \<and>
         parse_backend_yaml parse (YDict d) reg = Inl (KeyError k') \<and>
         main parse cg (YDict d) reg fm = (fm, Inl (KeyError k')))) \<and>
   (py_getitem d ''cpp_namespace'' = Inr ns \<and> py_getitem d ''backend'' = Inr b \<and>
    py_getitem d ''supported'' = Inr s \<and> py_getitem d ''autograd'' = Inr a \<and>
    py_iter s = Inl e \<longrightarrow>
      parse_backend_yaml parse (YDict d) reg = Inl e \<and>
      main parse cg (YDict d) reg fm = (fm, Inl e)) \<and>
   (py_getitem d ''cpp_namespace'' = Inr ns \<and> py_getitem d ''backend'' = Inr b \<and>
    py_getitem d ''supported'' = Inr (YList supported) \<and> py_getitem d ''autograd'' = Inr a \<and>
    map parse supported = map Inr snames \<and> py_iter a = Inl e \<longrightarrow>
      parse_backend_yaml parse (YDict d) reg = Inl e \<and>
      main parse cg (YDict d) reg fm = (fm, Inl e))"
proof (intro conjI impI)
  assume "k \<in> set required_fields \<and> map_of d k = None"
  then show "\<exists>k'. find (\<lambda>k. map_of d k = None) required_fields = Some k' \<and>
         parse_backend_yaml parse (YDict d) reg = Inl (KeyError k') \<and>
         main parse cg (YDict d) reg fm = (fm, Inl (KeyError k'))"
    by (auto simp: required_fields_def main_def parse_backend_yaml_def py_getitem_def
        split: option.splits)
next
  assume a: "py_getitem d ''cpp_namespace'' = Inr ns \<and> py_getitem d ''backend'' = Inr b \<and>
    py_getitem d ''supported'' = Inr s \<and> py_getitem d ''autograd'' = Inr a \<and>
    py_iter s = Inl e"
  then have p: "parse_backend_yaml parse (YDict d) reg = Inl e"
    by (simp add: parse_backend_yaml_def build_metadata_def)
  then show "parse_backend_yaml parse (YDict d) reg = Inl e" .
  from p show "main parse cg (YDict d) reg fm = (fm, Inl e)"
    by (simp add: main_def)
next
  assume a: "py_getitem d ''cpp_namespace'' = Inr ns \<and> py_getitem d ''backend'' = Inr b \<and>
    py_getitem d ''supported'' = Inr (YList supported) \<and> py_getitem d ''autograd'' = Inr a \<and>
    map parse supported = map Inr snames \<and> py_iter a = Inl e"
  then have "map parse supported = map Inr snames" by simp
  from add_metadata_parsed [OF this] a
  have p: "parse_backend_yaml parse (YDict d) reg = Inl e"
    by (simp add: parse_backend_yaml_def build_metadata_def)
  then show "parse_backend_yaml parse (YDict d) reg = Inl e" .
  from p show "main parse cg (YDict d) reg fm = (fm, Inl e)"
    by (simp add: main_def)
qed

theorem missing_field_fails_witness:
  "parse_backend_yaml parse_op
     (YDict [(''cpp_namespace'', YStr ''torch_xla''), (''supported'', YList []),
             (''autograd'', YList [])]) [NF (native ''add'')] = Inl (KeyError ''backend'') \<and>
   parse_backend_yaml parse_op
     (YDict [(''cpp_namespace'', YStr ''torch_xla''), (''backend'', YStr ''XLA''),
             (''supported'', YNull), (''autograd'', YList [])]) [NF (native ''add'')] =
     Inl (TypeError ''NoneType'') \<and>
   parse_backend_yaml parse_op
     (YDict [(''cpp_namespace'', YStr ''torch_xla''), (''backend'', YStr ''XLA''),
             (''supported'', YList [YStr ''aten::add'']), (''autograd'', YInt 3)])
     [NF (native ''add'')] = Inl (TypeError ''int'')"
  using
    missing_field_fails [where k = "''backend''" and parse = parse_op
      and reg = "[NF (native ''add'')]" and cg = example_codegen and fm = Map.empty
      and d = "[(''cpp_namespace'', YStr ''torch_xla''), (''supported'', YList []),
             (''autograd'', YList [])]"]
    missing_field_fails [where parse = parse_op
      and reg = "[NF (native ''add'')]" and cg = example_codegen and fm = Map.empty
      and ns = "YStr ''torch_xla''" and b = "YStr ''XLA''" and s = YNull and a = "YList []"
      and e = "TypeError ''NoneType''"
      and d = "[(''cpp_namespace'', YStr ''torch_xla''), (''backend'', YStr ''XLA''),
             (''supported'', YNull), (''autograd'', YList [])]"]
    missing_field_fails [where parse = parse_op
      and reg = "[NF (native ''add'')]" and cg = example_codegen and fm = Map.empty
      and ns = "YStr ''torch_xla''" and b = "YStr ''XLA''" and a = "YInt 3"
      and supported = "[YStr ''aten::add'']" and snames = "[opname ''add'']"
      and e = "TypeError ''int''"
      and d = "[(''cpp_namespace'', YStr ''torch_xla''), (''backend'', YStr ''XLA''),
             (''supported'', YList [YStr ''aten::add'']), (''autograd'', YInt 3)]"]
  by (simp add: required_fields_def py_getitem_def parse_op_add)

section \<open>Determinism\<close>



section \<open>The two registration lists\<close>




section \<open>Operator names as text\<close>

text \<open>
  C8. Every text the parser accepts is given back by formatting the parsed name; and every
  name of the canonical grammar \<open>namespace::base_name\<close> with an optional \<open>.overload\<close> is
  accepted in its text form and parsed to itself, so the round trip holds on all canonical
  texts.
\<close>

theorem parse_format_roundtrip:
  "(OperatorName_parse t = Inr n \<longrightarrow> OperatorName_str n = t) \<and>
   (canonical n \<longrightarrow> OperatorName_parse (OperatorName_str n) = Inr n)"
  using parse_str str_parse by blast

theorem parse_format_roundtrip_witness:
  "OperatorName_parse ''aten::add.out'' =
     Inr \<lparr>namespace = ''aten'', base_name = ''add'', overload = Some ''out''\<rparr> \<and>
   OperatorName_str \<lparr>namespace = ''aten'', base_name = ''add'', overload = Some ''out''\<rparr> =
     ''aten::add.out''"
proof -
  let ?n = "\<lparr>namespace = ''aten'', base_name = ''add'', overload = Some ''out''\<rparr>"
  have c: "canonical ?n"
    by (simp add: canonical_def ident_def)
  have s: "OperatorName_str ?n = ''aten::add.out''"
    by (simp add: OperatorName_str_def)
  from parse_format_roundtrip [of "OperatorName_str ?n" ?n] c
  have "OperatorName_parse (OperatorName_str ?n) = Inr ?n"
    by blast
  then have p: "OperatorName_parse ''aten::add.out'' = Inr ?n"
    unfolding s .
  from parse_format_roundtrip [of "''aten::add.out''" ?n] p
  have "OperatorName_str ?n = ''aten::add.out''"
    by blast
  with p show ?thesis by simp
qed

section \<open>Declarations that are no mapping\<close>

text \<open>
  C10. When the loaded document is not a mapping (a list, a scalar, or the \<open>None\<close> of an
  empty document), \<open>parse_backend_yaml\<close> fails with the bare \<open>AssertionError\<close> of line 20,
  whatever the registry and the parser are: no field is looked up. \<open>main\<close> ends with that
  error and writes nothing.
\<close>

theorem non_mapping_fails:
  assumes "\<forall>d. yaml_values \<noteq> YDict d"
  shows "parse_backend_yaml parse yaml_values reg = Inl (AssertionError []) \<and>
     main parse cg yaml_values reg fm = (fm, Inl (AssertionError []))"
  using assms by (cases yaml_values) (simp_all add: parse_backend_yaml_def main_def)

theorem non_mapping_fails_witness:
  "parse_backend_yaml parse_op (YList [YStr ''aten::add'']) [NF (native ''add'')] =
     Inl (AssertionError []) \<and>
   main parse_op example_codegen (YList [YStr ''aten::add'']) [NF (native ''add'')] Map.empty =
     (Map.empty, Inl (AssertionError []))"
  by (rule non_mapping_fails) simp

end
